theory Spec2Isabelle
  imports Main
begin

unbundle bit_operations_syntax

section \<open>TypeScript numbers and their bitwise operators\<close>

text \<open>
  The registers of \<^verbatim>\<open>class CPU\<close> (src/gameboy-emu/cpu.ts) are TypeScript
  \<^verbatim>\<open>number\<close>s that only ever hold integers, so they are modelled as \<open>int\<close>:
  nothing in the type keeps a register inside its bit width. The operators
  \<^verbatim>\<open>&\<close>, \<^verbatim>\<open>|\<close>, \<^verbatim>\<open>^\<close>, \<^verbatim>\<open><<\<close> and \<^verbatim>\<open>>>\<close> first convert
  their operands to signed 32-bit integers (ToInt32) and give a signed 32-bit
  result; \<^verbatim>\<open>+\<close> and \<^verbatim>\<open>-\<close> are exact on the integers that occur here.
\<close>

definition toInt32 :: "int \<Rightarrow> int" where
  "toInt32 x = signed_take_bit 31 x"

definition js_and :: "int \<Rightarrow> int \<Rightarrow> int" where
  "js_and x y = toInt32 x AND toInt32 y"

definition js_or :: "int \<Rightarrow> int \<Rightarrow> int" where
  "js_or x y = toInt32 x OR toInt32 y"

definition js_xor :: "int \<Rightarrow> int \<Rightarrow> int" where
  "js_xor x y = toInt32 x XOR toInt32 y"

definition js_shl :: "int \<Rightarrow> nat \<Rightarrow> int" where
  "js_shl x k = toInt32 (push_bit (k mod 32) (toInt32 x))"

definition js_shr :: "int \<Rightarrow> nat \<Rightarrow> int" where
  "js_shr x k = drop_bit (k mod 32) (toInt32 x)"

section \<open>Helpers imported from \<^verbatim>\<open>./utils\<close>\<close>

text \<open>
  cpu.ts imports \<^verbatim>\<open>uint8\<close>, \<^verbatim>\<open>uint16\<close>, \<^verbatim>\<open>addCarriesByte\<close>,
  \<^verbatim>\<open>addCarriesWord\<close>, \<^verbatim>\<open>addHalfCarriesByte\<close>, \<^verbatim>\<open>subHalfCarriesByte\<close> and
  \<^verbatim>\<open>addHalfCarriesWord\<close> from \<^verbatim>\<open>./utils\<close>, a file that is not part of the
  sources at hand. Each is modelled from what the specification says the
  handlers that call it compute.
\<close>

text \<open>Modelled from the spec: \<^verbatim>\<open>uint8\<close> of utils.ts is missing; section 4.5 has
  8-bit results "wrap modulo 256".\<close>

definition uint8 :: "int \<Rightarrow> int" where
  "uint8 x = x mod 256"

text \<open>Modelled from the spec: \<^verbatim>\<open>uint16\<close> of utils.ts is missing; section 4.6 has
  16-bit results "wrap modulo 65536".\<close>

definition uint16 :: "int \<Rightarrow> int" where
  "uint16 x = x mod 65536"

text \<open>Modelled from the spec: \<^verbatim>\<open>addCarriesByte\<close> of utils.ts is missing; section
  4.5 has "carry = true iff the unsigned sum exceeds 255".\<close>

definition addCarriesByte :: "int \<Rightarrow> int \<Rightarrow> bool" where
  "addCarriesByte x y = (x + y > 255)"

text \<open>Modelled from the spec: \<^verbatim>\<open>addHalfCarriesByte\<close> of utils.ts is missing;
  sections 4.5 and 8 have half-carry iff \<^verbatim>\<open>(a&0xF)+(b&0xF) > 0xF\<close>, "plus any
  carry-in for the carry variant". The third argument is the optional carry-in,
  0 where the caller leaves it out.\<close>

definition addHalfCarriesByte :: "int \<Rightarrow> int \<Rightarrow> int \<Rightarrow> bool" where
  "addHalfCarriesByte x y cin = (js_and x 0xF + js_and y 0xF + cin > 0xF)"

text \<open>Modelled from the spec: \<^verbatim>\<open>subHalfCarriesByte\<close> of utils.ts is missing;
  section 4.5 has "half-carry = borrow out of bit 4 of the low nibble
  comparison", with the borrow-in for the carry variant (0 where the caller
  leaves it out).\<close>

definition subHalfCarriesByte :: "int \<Rightarrow> int \<Rightarrow> int \<Rightarrow> bool" where
  "subHalfCarriesByte x y cin = (js_and x 0xF - js_and y 0xF - cin < 0)"

text \<open>Modelled from the spec: \<^verbatim>\<open>addCarriesWord\<close> of utils.ts is missing; section
  4.6 has "carry = carry out of bit 15".\<close>

definition addCarriesWord :: "int \<Rightarrow> int \<Rightarrow> bool" where
  "addCarriesWord x y = (x + y > 0xFFFF)"

text \<open>Modelled from the spec: \<^verbatim>\<open>addHalfCarriesWord\<close> of utils.ts is missing;
  section 4.6 has "half-carry = carry out of bit 11".\<close>

definition addHalfCarriesWord :: "int \<Rightarrow> int \<Rightarrow> bool" where
  "addHalfCarriesWord x y = (js_and x 0xFFF + js_and y 0xFFF > 0xFFF)"

section \<open>Processor state\<close>

datatype R8 = R8_A | R8_B | R8_C | R8_D | R8_E | R8_H | R8_L

datatype R16 = R16_AF | R16_BC | R16_DE | R16_HL | R16_SP

text \<open>The object \<^verbatim>\<open>F\<close>: four booleans and the method \<^verbatim>\<open>toUint8\<close>.\<close>

record flags =
  z :: bool
  n :: bool
  h :: bool
  c :: bool

definition toUint8 :: "flags \<Rightarrow> int" where
  "toUint8 fl =
     (let f0 = 0;
          f1 = (if z fl then js_or f0 0x80 else f0);
          f2 = (if n fl then js_or f1 0x40 else f1);
          f3 = (if h fl then js_or f2 0x20 else f2);
          f4 = (if c fl then js_or f3 0x10 else f3)
      in f4)"

text \<open>
  The fields of \<^verbatim>\<open>class CPU\<close>. \<open>mmu\<close> stands for the memory interface, of which
  only the byte read \<^verbatim>\<open>rb\<close> is used below; \<open>console\<close> collects the lines
  written by \<^verbatim>\<open>console.warn\<close>.
\<close>

record cpu =
  A :: int
  B :: int
  C :: int
  D :: int
  E :: int
  H :: int
  L :: int
  F :: flags
  SP :: int
  PC :: int
  halted :: bool
  stopped :: bool
  jumped :: bool
  ime :: bool
  setIMENext :: bool
  mmu :: "int \<Rightarrow> int"
  console :: "string list"

text \<open>The state built by the field initialisers and the constructor.\<close>

definition new_cpu :: "(int \<Rightarrow> int) \<Rightarrow> cpu" where
  "new_cpu m =
     \<lparr>A = 0, B = 0, C = 0, D = 0, E = 0, H = 0, L = 0,
      F = \<lparr>z = False, n = False, h = False, c = False\<rparr>,
      SP = 0, PC = 0, halted = False, stopped = False, jumped = False,
      ime = False, setIMENext = False, mmu = m, console = []\<rparr>"

section \<open>Register accessors\<close>

fun getR8 :: "R8 \<Rightarrow> cpu \<Rightarrow> int" where
  "getR8 R8_A s = A s"
| "getR8 R8_B s = B s"
| "getR8 R8_C s = C s"
| "getR8 R8_D s = D s"
| "getR8 R8_E s = E s"
| "getR8 R8_H s = H s"
| "getR8 R8_L s = L s"

fun setR8 :: "R8 \<Rightarrow> int \<Rightarrow> cpu \<Rightarrow> cpu" where
  "setR8 R8_A val s = s\<lparr>A := val\<rparr>"
| "setR8 R8_B val s = s\<lparr>B := val\<rparr>"
| "setR8 R8_C val s = s\<lparr>C := val\<rparr>"
| "setR8 R8_D val s = s\<lparr>D := val\<rparr>"
| "setR8 R8_E val s = s\<lparr>E := val\<rparr>"
| "setR8 R8_H val s = s\<lparr>H := val\<rparr>"
| "setR8 R8_L val s = s\<lparr>L := val\<rparr>"

definition getAF :: "cpu \<Rightarrow> int" where
  "getAF s = js_or (js_shl (A s) 8) (toUint8 (F s))"

definition getBC :: "cpu \<Rightarrow> int" where
  "getBC s = js_or (js_shl (B s) 8) (C s)"

definition getDE :: "cpu \<Rightarrow> int" where
  "getDE s = js_or (js_shl (D s) 8) (E s)"

definition getHL :: "cpu \<Rightarrow> int" where
  "getHL s = js_or (js_shl (H s) 8) (L s)"

text \<open>
  \<^verbatim>\<open>word & 0xFF00 >> 8\<close>: in TypeScript \<^verbatim>\<open>>>\<close> binds tighter than
  \<^verbatim>\<open>&\<close>, so the expression is \<^verbatim>\<open>word & (0xFF00 >> 8)\<close>.
\<close>

definition setBC :: "int \<Rightarrow> cpu \<Rightarrow> cpu" where
  "setBC word s =
     (let s1 = s\<lparr>B := js_and word (js_shr 0xFF00 8)\<rparr>
      in s1\<lparr>C := js_and word 0x00FF\<rparr>)"

definition setDE :: "int \<Rightarrow> cpu \<Rightarrow> cpu" where
  "setDE word s =
     (let s1 = s\<lparr>D := js_and word (js_shr 0xFF00 8)\<rparr>
      in s1\<lparr>E := js_and word 0x00FF\<rparr>)"

definition setHL :: "int \<Rightarrow> cpu \<Rightarrow> cpu" where
  "setHL word s =
     (let s1 = s\<lparr>H := js_and word (js_shr 0xFF00 8)\<rparr>
      in s1\<lparr>L := js_and word 0x00FF\<rparr>)"

fun getR16 :: "R16 \<Rightarrow> cpu \<Rightarrow> int" where
  "getR16 R16_AF s = getAF s"
| "getR16 R16_BC s = getBC s"
| "getR16 R16_DE s = getDE s"
| "getR16 R16_HL s = getHL s"
| "getR16 R16_SP s = SP s"

text \<open>
  The \<^verbatim>\<open>case R16.AF\<close> of \<^verbatim>\<open>setR16\<close> writes a warning and has no
  \<^verbatim>\<open>return\<close>, so control falls through to the \<^verbatim>\<open>case R16.BC\<close>.
\<close>

fun setR16 :: "R16 \<Rightarrow> int \<Rightarrow> cpu \<Rightarrow> cpu" where
  "setR16 R16_AF val s =
     setBC val (s\<lparr>console := console s @ [''set AF not implemented'']\<rparr>)"
| "setR16 R16_BC val s = setBC val s"
| "setR16 R16_DE val s = setDE val s"
| "setR16 R16_HL val s = setHL val s"
| "setR16 R16_SP val s = s\<lparr>SP := val\<rparr>"

section \<open>Instruction handlers\<close>

text \<open>
  Each handler of cpu.ts mutates the processor in place; here it takes the state
  and returns the new one, one \<open>let\<close> step per assignment, in the order of the
  source. The handlers that go through the memory interface are left out.
\<close>

text \<open>INC r8 [z0h-]\<close>

definition inc_r8 :: "R8 \<Rightarrow> cpu \<Rightarrow> cpu" where
  "inc_r8 reg8 s =
     (let val = getR8 reg8 s;
          newVal = uint8 (val + 1);
          s1 = setR8 reg8 newVal s;
          s2 = s1\<lparr>F := (F s1)\<lparr>z := (newVal = 0)\<rparr>\<rparr>;
          s3 = s2\<lparr>F := (F s2)\<lparr>n := False\<rparr>\<rparr>
      in s3\<lparr>F := (F s3)\<lparr>h := addHalfCarriesByte val 1 0\<rparr>\<rparr>)"

text \<open>DEC r8 [z1h-]\<close>

definition dec_r8 :: "R8 \<Rightarrow> cpu \<Rightarrow> cpu" where
  "dec_r8 reg8 s =
     (let val = getR8 reg8 s;
          newVal = uint8 (val - 1);
          s1 = setR8 reg8 newVal s;
          s2 = s1\<lparr>F := (F s1)\<lparr>z := (newVal = 0)\<rparr>\<rparr>;
          s3 = s2\<lparr>F := (F s2)\<lparr>n := True\<rparr>\<rparr>
      in s3\<lparr>F := (F s3)\<lparr>h := subHalfCarriesByte val 1 0\<rparr>\<rparr>)"

text \<open>INC r16 [----]: the sum is passed on as it is, with no \<^verbatim>\<open>uint16\<close>.\<close>

definition inc_r16 :: "R16 \<Rightarrow> cpu \<Rightarrow> cpu" where
  "inc_r16 reg16 s = setR16 reg16 (getR16 reg16 s + 1) s"

text \<open>DEC r16 [----]\<close>

definition dec_r16 :: "R16 \<Rightarrow> cpu \<Rightarrow> cpu" where
  "dec_r16 reg16 s = setR16 reg16 (uint16 (getR16 reg16 s - 1)) s"

text \<open>RLCA [000c]\<close>

definition rlc_A :: "cpu \<Rightarrow> cpu" where
  "rlc_A s =
     (let carry = (js_and (A s) 0x80 \<noteq> 0);
          s1 = (if carry then
                  (let t1 = s\<lparr>A := js_shl (A s) 1\<rparr>;
                       t2 = t1\<lparr>A := js_or (A t1) 0x01\<rparr>
                   in t2\<lparr>F := (F t2)\<lparr>c := True\<rparr>\<rparr>)
                else
                  (let t1 = s\<lparr>A := js_shl (A s) 1\<rparr>
                   in t1\<lparr>F := (F t1)\<lparr>c := False\<rparr>\<rparr>));
          s2 = s1\<lparr>F := (F s1)\<lparr>z := False\<rparr>\<rparr>;
          s3 = s2\<lparr>F := (F s2)\<lparr>n := False\<rparr>\<rparr>
      in s3\<lparr>F := (F s3)\<lparr>h := False\<rparr>\<rparr>)"

text \<open>RRCA [000c]\<close>

definition rrc_A :: "cpu \<Rightarrow> cpu" where
  "rrc_A s =
     (let carry = (js_and (A s) 0x01 \<noteq> 0);
          s1 = (if carry then
                  (let t1 = s\<lparr>A := js_shr (A s) 1\<rparr>;
                       t2 = t1\<lparr>A := js_or (A t1) 0x80\<rparr>
                   in t2\<lparr>F := (F t2)\<lparr>c := True\<rparr>\<rparr>)
                else
                  (let t1 = s\<lparr>A := js_shr (A s) 1\<rparr>
                   in t1\<lparr>F := (F t1)\<lparr>c := False\<rparr>\<rparr>));
          s2 = s1\<lparr>F := (F s1)\<lparr>z := False\<rparr>\<rparr>;
          s3 = s2\<lparr>F := (F s2)\<lparr>n := False\<rparr>\<rparr>
      in s3\<lparr>F := (F s3)\<lparr>h := False\<rparr>\<rparr>)"

text \<open>ADD HL r16 [-0hc]\<close>

definition add_HL_r16 :: "R16 \<Rightarrow> cpu \<Rightarrow> cpu" where
  "add_HL_r16 reg16 s =
     (let val = getR16 reg16 s;
          hl = getHL s;
          newVal = uint16 (hl + val);
          s1 = setHL newVal s;
          s2 = s1\<lparr>F := (F s1)\<lparr>n := False\<rparr>\<rparr>;
          s3 = s2\<lparr>F := (F s2)\<lparr>h := addHalfCarriesWord hl val\<rparr>\<rparr>
      in s3\<lparr>F := (F s3)\<lparr>c := addCarriesWord hl val\<rparr>\<rparr>)"

text \<open>RLA [000c]\<close>

definition rl_A :: "cpu \<Rightarrow> cpu" where
  "rl_A s =
     (let oldCarry = (if c (F s) then 1 else 0);
          s1 = s\<lparr>F := (F s)\<lparr>c := (js_and (A s) 0x80 \<noteq> 0)\<rparr>\<rparr>;
          s2 = s1\<lparr>A := js_shl (A s1) 1\<rparr>;
          s3 = s2\<lparr>A := js_or (A s2) oldCarry\<rparr>;
          s4 = s3\<lparr>F := (F s3)\<lparr>z := False\<rparr>\<rparr>;
          s5 = s4\<lparr>F := (F s4)\<lparr>n := False\<rparr>\<rparr>
      in s5\<lparr>F := (F s5)\<lparr>h := False\<rparr>\<rparr>)"

text \<open>RRA [000c]\<close>

definition rr_A :: "cpu \<Rightarrow> cpu" where
  "rr_A s =
     (let oldCarry = (if c (F s) then 1 else 0);
          s1 = s\<lparr>F := (F s)\<lparr>c := (js_and (A s) 0x01 \<noteq> 0)\<rparr>\<rparr>;
          s2 = s1\<lparr>A := js_shr (A s1) 1\<rparr>;
          s3 = s2\<lparr>A := js_or (A s2) (js_shl oldCarry 7)\<rparr>;
          s4 = s3\<lparr>F := (F s3)\<lparr>z := False\<rparr>\<rparr>;
          s5 = s4\<lparr>F := (F s4)\<lparr>n := False\<rparr>\<rparr>
      in s5\<lparr>F := (F s5)\<lparr>h := False\<rparr>\<rparr>)"

text \<open>ADD A {r8, d8} [z0hc]\<close>

definition add :: "int \<Rightarrow> cpu \<Rightarrow> cpu" where
  "add byte s =
     (let oldA = A s;
          s1 = s\<lparr>A := uint8 (A s + byte)\<rparr>;
          s2 = s1\<lparr>F := (F s1)\<lparr>z := (A s1 = 0)\<rparr>\<rparr>;
          s3 = s2\<lparr>F := (F s2)\<lparr>n := False\<rparr>\<rparr>;
          s4 = s3\<lparr>F := (F s3)\<lparr>h := addHalfCarriesByte oldA byte 0\<rparr>\<rparr>
      in s4\<lparr>F := (F s4)\<lparr>c := addCarriesByte oldA byte\<rparr>\<rparr>)"

text \<open>ADC A {r8, d8} [z0hc]\<close>

definition adc :: "int \<Rightarrow> cpu \<Rightarrow> cpu" where
  "adc val s =
     (let carry = (if c (F s) then 1 else 0);
          oldA = A s;
          s1 = s\<lparr>A := uint8 (A s + val + carry)\<rparr>;
          s2 = s1\<lparr>F := (F s1)\<lparr>z := (A s1 = 0)\<rparr>\<rparr>;
          s3 = s2\<lparr>F := (F s2)\<lparr>n := False\<rparr>\<rparr>;
          s4 = s3\<lparr>F := (F s3)\<lparr>h := addHalfCarriesByte oldA val carry\<rparr>\<rparr>
      in s4\<lparr>F := (F s4)\<lparr>c := addCarriesByte oldA (val + carry)\<rparr>\<rparr>)"

text \<open>SUB A {r8, d8} [z1hc]: the source assigns \<^verbatim>\<open>this.F.n\<close> twice and
  \<^verbatim>\<open>this.F.h\<close> not at all.\<close>

definition sub :: "int \<Rightarrow> cpu \<Rightarrow> cpu" where
  "sub val s =
     (let oldA = A s;
          s1 = s\<lparr>A := uint8 (A s - val)\<rparr>;
          s2 = s1\<lparr>F := (F s1)\<lparr>z := (A s1 = 0)\<rparr>\<rparr>;
          s3 = s2\<lparr>F := (F s2)\<lparr>n := True\<rparr>\<rparr>;
          s4 = s3\<lparr>F := (F s3)\<lparr>n := subHalfCarriesByte oldA val 0\<rparr>\<rparr>
      in s4\<lparr>F := (F s4)\<lparr>c := (oldA - val < 0)\<rparr>\<rparr>)"

definition sbc :: "int \<Rightarrow> cpu \<Rightarrow> cpu" where
  "sbc val s =
     (let carry = (if c (F s) then 1 else 0);
          oldA = A s;
          s1 = s\<lparr>A := uint8 (A s - val - carry)\<rparr>;
          s2 = s1\<lparr>F := (F s1)\<lparr>z := (A s1 = 0)\<rparr>\<rparr>;
          s3 = s2\<lparr>F := (F s2)\<lparr>n := True\<rparr>\<rparr>;
          s4 = s3\<lparr>F := (F s3)\<lparr>h := subHalfCarriesByte oldA val carry\<rparr>\<rparr>
      in s4\<lparr>F := (F s4)\<lparr>c := (oldA - val - carry < 0)\<rparr>\<rparr>)"

text \<open>AND A r8 [z010]\<close>

definition and_op :: "int \<Rightarrow> cpu \<Rightarrow> cpu" where
  "and_op val s =
     (let s1 = s\<lparr>A := js_and (A s) val\<rparr>;
          s2 = s1\<lparr>F := (F s1)\<lparr>z := (A s1 = 0)\<rparr>\<rparr>;
          s3 = s2\<lparr>F := (F s2)\<lparr>n := False\<rparr>\<rparr>;
          s4 = s3\<lparr>F := (F s3)\<lparr>h := True\<rparr>\<rparr>
      in s4\<lparr>F := (F s4)\<lparr>c := False\<rparr>\<rparr>)"

text \<open>XOR A r8 [z010]: the body of the source is \<^verbatim>\<open>this.A = this.A | val\<close>.\<close>

definition xor_op :: "int \<Rightarrow> cpu \<Rightarrow> cpu" where
  "xor_op val s =
     (let s1 = s\<lparr>A := js_or (A s) val\<rparr>;
          s2 = s1\<lparr>F := (F s1)\<lparr>z := (A s1 = 0)\<rparr>\<rparr>;
          s3 = s2\<lparr>F := (F s2)\<lparr>n := False\<rparr>\<rparr>;
          s4 = s3\<lparr>F := (F s3)\<lparr>h := True\<rparr>\<rparr>
      in s4\<lparr>F := (F s4)\<lparr>c := False\<rparr>\<rparr>)"

text \<open>OR A r8 [z000]\<close>

definition or_op :: "int \<Rightarrow> cpu \<Rightarrow> cpu" where
  "or_op val s =
     (let s1 = s\<lparr>A := js_or (A s) val\<rparr>;
          s2 = s1\<lparr>F := (F s1)\<lparr>z := (A s1 = 0)\<rparr>\<rparr>;
          s3 = s2\<lparr>F := (F s2)\<lparr>n := False\<rparr>\<rparr>;
          s4 = s3\<lparr>F := (F s3)\<lparr>h := False\<rparr>\<rparr>
      in s4\<lparr>F := (F s4)\<lparr>c := False\<rparr>\<rparr>)"

text \<open>CP A r8 [z1hc]\<close>

definition cp :: "int \<Rightarrow> cpu \<Rightarrow> cpu" where
  "cp val s =
     (let result = A s - val;
          s1 = s\<lparr>F := (F s)\<lparr>z := (result = 0)\<rparr>\<rparr>;
          s2 = s1\<lparr>F := (F s1)\<lparr>n := True\<rparr>\<rparr>;
          s3 = s2\<lparr>F := (F s2)\<lparr>h := subHalfCarriesByte (A s2) val 0\<rparr>\<rparr>
      in s3\<lparr>F := (F s3)\<lparr>c := (A s3 - val < 0)\<rparr>\<rparr>)"

text \<open>DAA [z-0c]\<close>

definition daa :: "cpu \<Rightarrow> cpu" where
  "daa s =
     (let u0 = 0;
          u1 = (if h (F s) \<or> (\<not> n (F s) \<and> js_and (A s) 0x0F > 0x09) then 0x06 else u0);
          adjustHigh = (c (F s) \<or> (\<not> n (F s) \<and> A s > 0x99));
          u2 = (if adjustHigh then js_or u1 0x60 else u1);
          s1 = (if adjustHigh then s\<lparr>F := (F s)\<lparr>c := True\<rparr>\<rparr> else s);
          s2 = (if n (F s1) then s1\<lparr>A := uint8 (A s1 - u2)\<rparr>
                else s1\<lparr>A := uint8 (A s1 + u2)\<rparr>);
          s3 = s2\<lparr>F := (F s2)\<lparr>z := (A s2 = 0)\<rparr>\<rparr>
      in s3\<lparr>F := (F s3)\<lparr>h := False\<rparr>\<rparr>)"

text \<open>CPL [-11-]\<close>

definition cpl :: "cpu \<Rightarrow> cpu" where
  "cpl s =
     (let s1 = s\<lparr>A := js_xor (A s) 0xFF\<rparr>;
          s2 = s1\<lparr>F := (F s1)\<lparr>n := True\<rparr>\<rparr>
      in s2\<lparr>F := (F s2)\<lparr>h := True\<rparr>\<rparr>)"

text \<open>SCF [-001]\<close>

definition scf :: "cpu \<Rightarrow> cpu" where
  "scf s =
     (let s1 = s\<lparr>F := (F s)\<lparr>n := False\<rparr>\<rparr>;
          s2 = s1\<lparr>F := (F s1)\<lparr>h := False\<rparr>\<rparr>
      in s2\<lparr>F := (F s2)\<lparr>c := True\<rparr>\<rparr>)"

text \<open>CCF [-00c]\<close>

definition ccf :: "cpu \<Rightarrow> cpu" where
  "ccf s =
     (let s1 = s\<lparr>F := (F s)\<lparr>n := False\<rparr>\<rparr>;
          s2 = s1\<lparr>F := (F s1)\<lparr>h := False\<rparr>\<rparr>
      in s2\<lparr>F := (F s2)\<lparr>c := (\<not> c (F s2))\<rparr>\<rparr>)"

section \<open>The dispatcher\<close>







section \<open>Notions of the specification\<close>

text \<open>A processor fresh from the constructor, over a memory of zero bytes.\<close>

definition cpu0 :: cpu where
  "cpu0 = new_cpu (\<lambda>address. 0)"


text \<open>The register-width invariant of section 3: the 8-bit registers within
  [0,255], the stack pointer and the program counter within [0,65535].\<close>

definition registers_in_range :: "cpu \<Rightarrow> bool" where
  "registers_in_range s =
     (0 \<le> A s \<and> A s \<le> 255 \<and> 0 \<le> B s \<and> B s \<le> 255 \<and> 0 \<le> C s \<and> C s \<le> 255 \<and>
      0 \<le> D s \<and> D s \<le> 255 \<and> 0 \<le> E s \<and> E s \<le> 255 \<and> 0 \<le> H s \<and> H s \<le> 255 \<and>
      0 \<le> L s \<and> L s \<le> 255 \<and> 0 \<le> SP s \<and> SP s \<le> 65535 \<and> 0 \<le> PC s \<and> PC s \<le> 65535)"

text \<open>Packed binary-coded decimal: a byte whose two nibbles are decimal digits,
  the number it stands for, and the byte that stands for a number below 100.\<close>

definition is_bcd :: "int \<Rightarrow> bool" where
  "is_bcd x = (0 \<le> x \<and> x \<le> 255 \<and> x div 16 \<le> 9 \<and> x mod 16 \<le> 9)"

definition bcd_value :: "int \<Rightarrow> int" where
  "bcd_value x = 10 * (x div 16) + x mod 16"

definition bcd_byte :: "int \<Rightarrow> int" where
  "bcd_byte k = 16 * (k div 10) + k mod 10"


section \<open>Facts about the operators and the handlers\<close>

lemma toInt32_id: "0 \<le> x \<Longrightarrow> x \<le> 65535 \<Longrightarrow> toInt32 x = x"
  unfolding toInt32_def by (rule signed_take_bit_int_eq_self) simp_all

lemma and_nibble: "(x::int) AND 0xF = x mod 16"
proof -
  have "x AND 0xF = x AND mask 4"
    by (simp add: mask_numeral)
  also have "\<dots> = x mod 2 ^ 4"
    by (simp only: take_bit_eq_mask [symmetric] take_bit_eq_mod)
  finally show ?thesis by simp
qed

lemma js_and_nibble: "0 \<le> x \<Longrightarrow> x \<le> 65535 \<Longrightarrow> js_and x 0xF = x mod 16"
  by (simp add: js_and_def toInt32_id and_nibble)

lemma js_or_0x60: "js_or 6 0x60 = 6 + 96" "js_or 0 0x60 = 0 + 96"
  by (simp_all add: js_or_def toInt32_def)

lemma add_acc: "A (add b s) = uint8 (A s + b)"
  by (simp add: add_def Let_def)

lemma add_flags:
  "F (add b s) =
     \<lparr>z = (uint8 (A s + b) = 0), n = False, h = addHalfCarriesByte (A s) b 0,
      c = addCarriesByte (A s) b\<rparr>"
  by (simp add: add_def Let_def)

text \<open>What \<open>daa\<close> does when the negative flag is clear, as after an addition.\<close>

lemma daa_after_add:
  assumes "\<not> n (F s)"
  shows "A (daa s) =
           uint8 (A s + (if c (F s) \<or> A s > 0x99
                         then js_or (if h (F s) \<or> js_and (A s) 0x0F > 0x09 then 0x06 else 0) 0x60
                         else (if h (F s) \<or> js_and (A s) 0x0F > 0x09 then 0x06 else 0)))"
    and "c (F (daa s)) = (c (F s) \<or> A s > 0x99)"
  using assms by (auto simp add: daa_def Let_def)

text \<open>
  The sum of two packed-BCD bytes is determined by the sum \<open>hi\<close> of their high
  digits and the sum \<open>lo\<close> of their low digits, both at most 18; the decimal
  adjustment is checked on each of the 361 pairs.
\<close>

lemma daa_core:
  "\<forall>hi \<in> set [0..18]. \<forall>lo \<in> set [0..18].
     (let a1 = (16 * hi + lo) mod 256;
          u1 = (if lo > 15 \<or> a1 mod 16 > 9 then 6 else 0);
          adj = (16 * hi + lo > 255 \<or> a1 > 153);
          u2 = (if adj then u1 + 96 else u1)
      in (a1 + u2) mod 256 = bcd_byte ((10 * hi + lo) mod 100) \<and>
         (adj = (10 * hi + lo > 99)))"
  by code_simp

lemma rlc_A_acc:
  "A (rlc_A s) =
     (if js_and (A s) 0x80 \<noteq> 0 then js_or (js_shl (A s) 1) 0x01 else js_shl (A s) 1)"
  by (simp add: rlc_A_def Let_def)

lemma rrc_A_acc:
  "A (rrc_A s) =
     (if js_and (A s) 0x01 \<noteq> 0 then js_or (js_shr (A s) 1) 0x80 else js_shr (A s) 1)"
  by (simp add: rrc_A_def Let_def)

lemma rrc_A_carry: "c (F (rrc_A s)) = (js_and (A s) 0x01 \<noteq> 0)"
  by (simp add: rrc_A_def Let_def)

text \<open>The two rotations composed, on each of the 256 bytes.\<close>

lemma rlc_rrc_bytes:
  "\<forall>a \<in> set [0..255].
     (let a1 = (if js_and a 0x80 \<noteq> 0 then js_or (js_shl a 1) 0x01 else js_shl a 1)
      in (if js_and a1 0x01 \<noteq> 0 then js_or (js_shr a1 1) 0x80 else js_shr a1 1) = a \<and>
         ((js_and a1 0x01 \<noteq> 0) = (js_and a 0x80 \<noteq> 0)))"
  by code_simp

text \<open>The register pairs receive the low byte of the word in both halves.\<close>

lemma setBC_halves:
  "B (setBC word s) = js_and word 0xFF" "C (setBC word s) = js_and word 0xFF"
  by (simp_all add: setBC_def js_shr_def toInt32_def)

text \<open>\<open>sub\<close> leaves the half-carry flag as it finds it.\<close>

lemma sub_half_carry_unchanged: "h (F (sub val s)) = h (F s)"
  by (simp add: sub_def Let_def)

lemma xor_op_acc: "A (xor_op val s) = js_or (A s) val"
  by (simp add: xor_op_def Let_def)

text \<open>The 16-bit increment of the stack pointer is a plain addition; neither
  16-bit handler touches the flags.\<close>

lemma inc_r16_SP: "SP (inc_r16 R16_SP s) = SP s + 1"
  by (simp add: inc_r16_def)

lemma inc_r16_flags: "F (inc_r16 reg16 s) = F s"
  by (cases reg16) (simp_all add: inc_r16_def setBC_def setDE_def setHL_def)

lemma dec_r16_flags: "F (dec_r16 reg16 s) = F s"
  by (cases reg16) (simp_all add: dec_r16_def setBC_def setDE_def setHL_def)

text \<open>
  None of the handlers writes the interrupt-master-enable flag or the pending
  flag, and none of them is an "enable interrupts" handler.
\<close>

lemma handlers_keep_ime:
  "ime (inc_r8 reg8 s) = ime s" "ime (dec_r8 reg8 s) = ime s"
  "ime (inc_r16 reg16 s) = ime s" "ime (dec_r16 reg16 s) = ime s"
  "ime (add_HL_r16 reg16 s) = ime s"
  "ime (rlc_A s) = ime s" "ime (rrc_A s) = ime s" "ime (rl_A s) = ime s" "ime (rr_A s) = ime s"
  "ime (add val s) = ime s" "ime (adc val s) = ime s" "ime (sub val s) = ime s"
  "ime (sbc val s) = ime s" "ime (and_op val s) = ime s" "ime (xor_op val s) = ime s"
  "ime (or_op val s) = ime s" "ime (cp val s) = ime s" "ime (daa s) = ime s"
  "ime (cpl s) = ime s" "ime (scf s) = ime s" "ime (ccf s) = ime s"
  by (cases reg8; cases reg16;
      simp add: inc_r8_def dec_r8_def inc_r16_def dec_r16_def add_HL_r16_def rlc_A_def
        rrc_A_def rl_A_def rr_A_def add_def adc_def sub_def sbc_def and_op_def xor_op_def
        or_op_def cp_def daa_def cpl_def scf_def ccf_def setBC_def setDE_def setHL_def
        Let_def)+

lemma handlers_keep_setIMENext:
  "setIMENext (inc_r8 reg8 s) = setIMENext s" "setIMENext (dec_r8 reg8 s) = setIMENext s"
  "setIMENext (inc_r16 reg16 s) = setIMENext s" "setIMENext (dec_r16 reg16 s) = setIMENext s"
  "setIMENext (add_HL_r16 reg16 s) = setIMENext s"
  "setIMENext (rlc_A s) = setIMENext s" "setIMENext (rrc_A s) = setIMENext s"
  "setIMENext (rl_A s) = setIMENext s" "setIMENext (rr_A s) = setIMENext s"
  "setIMENext (add val s) = setIMENext s" "setIMENext (adc val s) = setIMENext s"
  "setIMENext (sub val s) = setIMENext s" "setIMENext (sbc val s) = setIMENext s"
  "setIMENext (and_op val s) = setIMENext s" "setIMENext (xor_op val s) = setIMENext s"
  "setIMENext (or_op val s) = setIMENext s" "setIMENext (cp val s) = setIMENext s"
  "setIMENext (daa s) = setIMENext s" "setIMENext (cpl s) = setIMENext s"
  "setIMENext (scf s) = setIMENext s" "setIMENext (ccf s) = setIMENext s"
  by (cases reg8; cases reg16;
      simp add: inc_r8_def dec_r8_def inc_r16_def dec_r16_def add_HL_r16_def rlc_A_def
        rrc_A_def rl_A_def rr_A_def add_def adc_def sub_def sbc_def and_op_def xor_op_def
        or_op_def cp_def daa_def cpl_def scf_def ccf_def setBC_def setDE_def setHL_def
        Let_def)+

section \<open>Register pairs\<close>

text \<open>
  Claim C1: writing a 16-bit value to BC, DE or HL stores its high byte in the
  first register and its low byte in the second, so that reading the pair back
  gives the value written. The source does not do this: because of the
  precedence of \<^verbatim>\<open>>>\<close> over \<^verbatim>\<open>&\<close> the first register receives the low
  byte as well. Writing 0x1234 leaves 0x34 in both halves, and the pair reads
  0x3434, through \<open>setBC\<close>, \<open>setDE\<close>, \<open>setHL\<close> and \<open>setR16\<close> alike.
\<close>

theorem set_pair_stores_low_byte_twice:
  "B (setBC 0x1234 cpu0) = 0x34 \<and> C (setBC 0x1234 cpu0) = 0x34 \<and>
   getBC (setBC 0x1234 cpu0) = 0x3434 \<and>
   getDE (setDE 0x1234 cpu0) = 0x3434 \<and>
   getHL (setHL 0x1234 cpu0) = 0x3434 \<and>
   getBC (setR16 R16_BC 0x1234 cpu0) = 0x3434 \<and>
   getDE (setR16 R16_DE 0x1234 cpu0) = 0x3434 \<and>
   getHL (setR16 R16_HL 0x1234 cpu0) = 0x3434"
  by code_simp

text \<open>
  Claim C2, as stated: writing a value to AF sets the accumulator to its high
  byte and the four flags from bits 7 to 4 of its low byte, and changes no other
  register. On a fresh processor, writing 0x12F0 leaves the accumulator at 0 and
  the zero flag clear, and changes B.
\<close>

theorem setR16_AF_counterexample:
  "A (setR16 R16_AF 0x12F0 cpu0) \<noteq> 0x12 \<and>
   \<not> z (F (setR16 R16_AF 0x12F0 cpu0)) \<and>
   B (setR16 R16_AF 0x12F0 cpu0) \<noteq> B cpu0"
  by code_simp

text \<open>
  Claim C2, amended: writing to AF is not implemented. \<open>setR16\<close> on AF writes
  the warning "set AF not implemented" and leaves the accumulator and all four
  flags as they were, for every value and every state; D, E, H, L, the stack
  pointer and the program counter keep their values too.
\<close>

theorem setR16_AF_not_implemented:
  "A (setR16 R16_AF val s) = A s \<and> F (setR16 R16_AF val s) = F s \<and>
   console (setR16 R16_AF val s) = console s @ [''set AF not implemented''] \<and>
   D (setR16 R16_AF val s) = D s \<and> E (setR16 R16_AF val s) = E s \<and>
   H (setR16 R16_AF val s) = H s \<and> L (setR16 R16_AF val s) = L s \<and>
   SP (setR16 R16_AF val s) = SP s \<and> PC (setR16 R16_AF val s) = PC s"
  by (simp add: setBC_def)

section \<open>8-bit arithmetic and logic\<close>

text \<open>
  Claim C3: the subtract handler sets the negative flag unconditionally and the
  half-carry flag iff the low nibbles borrow. The source assigns the half-borrow
  to the negative flag and never assigns the half-carry flag: 0x10 - 0x00 has
  no half-borrow and ends with the negative flag clear, and 0x00 - 0x01 borrows
  and ends with the half-carry flag still clear.
\<close>

theorem sub_negative_flag_is_half_borrow:
  "\<not> n (F (sub 0x00 (cpu0\<lparr>A := 0x10\<rparr>))) \<and>
   A (sub 0x00 (cpu0\<lparr>A := 0x10\<rparr>)) = 0x10 \<and>
   \<not> h (F (sub 0x01 (cpu0\<lparr>A := 0x00\<rparr>))) \<and>
   A (sub 0x01 (cpu0\<lparr>A := 0x00\<rparr>)) = 0xFF"
  by code_simp

text \<open>
  Claim C4: the exclusive-or handler leaves the bitwise XOR of accumulator and
  operand in the accumulator, sets the zero flag iff that is 0, and clears the
  negative, half-carry and carry flags. The source computes the bitwise OR and
  sets the half-carry flag: 0xFF xor 0xFF ends with 0xFF in the accumulator,
  the zero flag clear and the half-carry flag set.
\<close>

theorem xor_computes_or:
  "A (xor_op 0xFF (cpu0\<lparr>A := 0xFF\<rparr>)) = 0xFF \<and>
   \<not> z (F (xor_op 0xFF (cpu0\<lparr>A := 0xFF\<rparr>))) \<and>
   h (F (xor_op 0xFF (cpu0\<lparr>A := 0xFF\<rparr>)))"
  by code_simp

text \<open>
  Claim C5: for bytes \<open>a\<close> (the accumulator) and \<open>b\<close>, the add handler leaves
  \<open>(a + b) mod 256\<close> in the accumulator, sets the carry flag iff \<open>a + b > 255\<close>,
  the half-carry flag iff the low nibbles add up to more than 0xF, the zero flag
  iff the wrapped result is 0, and clears the negative flag.
\<close>

theorem add_result_and_flags:
  assumes "0 \<le> A s" "A s \<le> 255" "0 \<le> b" "b \<le> 255"
  shows "A (add b s) = (A s + b) mod 256 \<and>
         (c (F (add b s)) \<longleftrightarrow> A s + b > 255) \<and>
         (h (F (add b s)) \<longleftrightarrow> (A s AND 0xF) + (b AND 0xF) > 0xF) \<and>
         (z (F (add b s)) \<longleftrightarrow> (A s + b) mod 256 = 0) \<and>
         \<not> n (F (add b s))"
  using assms
  by (simp add: add_def Let_def uint8_def addCarriesByte_def addHalfCarriesByte_def
      js_and_nibble and_nibble)

text \<open>The scenario of section 8: 0x3C + 0x2E = 0x6A with only the half-carry set.\<close>

theorem add_result_and_flags_witness:
  "0 \<le> A (cpu0\<lparr>A := 0x3C\<rparr>) \<and> A (cpu0\<lparr>A := 0x3C\<rparr>) \<le> 255 \<and>
   (0::int) \<le> 0x2E \<and> (0x2E::int) \<le> 255 \<and>
   A (add 0x2E (cpu0\<lparr>A := 0x3C\<rparr>)) = 0x6A \<and>
   \<not> c (F (add 0x2E (cpu0\<lparr>A := 0x3C\<rparr>))) \<and>
   h (F (add 0x2E (cpu0\<lparr>A := 0x3C\<rparr>))) \<and>
   \<not> z (F (add 0x2E (cpu0\<lparr>A := 0x3C\<rparr>))) \<and>
   \<not> n (F (add 0x2E (cpu0\<lparr>A := 0x3C\<rparr>)))"
  using add_result_and_flags [of "cpu0\<lparr>A := 0x3C\<rparr>" "0x2E"]
  by (simp add: cpu0_def new_cpu_def)

text \<open>
  Claim C6: for packed-BCD bytes \<open>x\<close> (the accumulator) and \<open>y\<close>, the add handler
  followed by the daa handler leaves in the accumulator the packed-BCD byte of
  the last two digits of the decimal sum, and the carry flag is set exactly when
  the decimal sum exceeds 99.
\<close>

theorem add_then_daa_bcd:
  assumes "is_bcd (A s)" and "is_bcd y"
  shows "A (daa (add y s)) = bcd_byte ((bcd_value (A s) + bcd_value y) mod 100) \<and>
         (c (F (daa (add y s))) \<longleftrightarrow> bcd_value (A s) + bcd_value y > 99)"
proof -
  define x where "x = A s"
  define hi where "hi = x div 16 + y div 16"
  define lo where "lo = x mod 16 + y mod 16"
  from assms have bx: "0 \<le> x" "x \<le> 255" "x div 16 \<le> 9" "x mod 16 \<le> 9"
    and "by": "0 \<le> y" "y \<le> 255" "y div 16 \<le> 9" "y mod 16 \<le> 9"
    by (simp_all add: is_bcd_def x_def)
  have "0 \<le> x div 16" "0 \<le> y div 16"
    using bx "by" by simp_all
  then have hi: "hi \<in> set [0..18]"
    using bx "by" by (simp add: hi_def)
  have lo: "lo \<in> set [0..18]"
    using bx "by" by (simp add: lo_def)
  have sum: "x + y = 16 * hi + lo"
    by (simp add: hi_def lo_def)
  have val: "bcd_value x + bcd_value y = 10 * hi + lo"
    by (simp add: bcd_value_def hi_def lo_def)
  have nib: "js_and x 0xF + js_and y 0xF = lo"
    using bx "by" by (simp add: js_and_nibble lo_def)
  define a1 where "a1 = (16 * hi + lo) mod 256"
  have a1: "0 \<le> a1" "a1 \<le> 255"
    by (simp_all add: a1_def)
  have a1nib: "js_and a1 0xF = a1 mod 16"
    using a1 by (simp add: js_and_nibble)
  have acc: "A (add y s) = a1"
    by (simp add: add_acc uint8_def sum a1_def x_def [symmetric])
  have fl: "F (add y s) =
      \<lparr>z = (a1 = 0), n = False, h = (lo > 15), c = (16 * hi + lo > 255)\<rparr>"
    using nib
    by (simp add: add_flags uint8_def addHalfCarriesByte_def addCarriesByte_def
        x_def [symmetric] sum a1_def)
  have core:
    "(let u1 = (if lo > 15 \<or> a1 mod 16 > 9 then 6 else 0);
          adj = (16 * hi + lo > 255 \<or> a1 > 153);
          u2 = (if adj then u1 + 96 else u1)
      in (a1 + u2) mod 256 = bcd_byte ((10 * hi + lo) mod 100) \<and>
         (adj = (10 * hi + lo > 99)))"
    using daa_core hi lo unfolding a1_def Let_def by blast
  have nn: "\<not> n (F (add y s))"
    by (simp add: fl)
  show ?thesis
    using core
    unfolding daa_after_add [OF nn] acc fl val x_def [symmetric]
    by (auto simp add: Let_def uint8_def a1nib js_or_0x60 split: if_splits)
qed

text \<open>48 + 58 = 106: the accumulator ends at 0x06 with the carry set.\<close>

theorem add_then_daa_bcd_witness:
  "is_bcd (A (cpu0\<lparr>A := 0x48\<rparr>)) \<and> is_bcd 0x58 \<and>
   A (daa (add 0x58 (cpu0\<lparr>A := 0x48\<rparr>))) = 0x06 \<and>
   c (F (daa (add 0x58 (cpu0\<lparr>A := 0x48\<rparr>))))"
proof -
  have b1: "is_bcd (A (cpu0\<lparr>A := 0x48\<rparr>))"
    by (simp add: is_bcd_def)
  have b2: "is_bcd 0x58"
    by (simp add: is_bcd_def)
  show ?thesis
    using b1 b2 add_then_daa_bcd [OF b1 b2]
    by (simp add: bcd_value_def bcd_byte_def)
qed

section \<open>16-bit increment and decrement\<close>

text \<open>
  Claim C7: the 16-bit increment and decrement wrap modulo 65536 and leave the
  flags alone; incrementing 0xFFFF gives 0x0000 for every register pair and for
  the stack pointer. \<open>inc_r16\<close> passes the sum on without \<^verbatim>\<open>uint16\<close>, which
  \<open>dec_r16\<close> applies: incrementing the stack pointer from 0xFFFF leaves 0x10000
  in it, while decrementing it from 0 gives 0xFFFF, the flags unchanged by both.
\<close>

theorem inc_r16_SP_does_not_wrap:
  "SP (inc_r16 R16_SP (cpu0\<lparr>SP := 0xFFFF\<rparr>)) = 0x10000 \<and>
   F (inc_r16 R16_SP (cpu0\<lparr>SP := 0xFFFF\<rparr>)) = F cpu0 \<and>
   SP (dec_r16 R16_SP (cpu0\<lparr>SP := 0x0000\<rparr>)) = 0xFFFF \<and>
   F (dec_r16 R16_SP (cpu0\<lparr>SP := 0x0000\<rparr>)) = F cpu0"
  by code_simp

section \<open>Accumulator rotations\<close>

text \<open>
  Claim C8, as stated: rotate-left-circular followed by rotate-right-circular
  restores the accumulator and restores the carry flag to the value it had
  before the two calls. With the accumulator 0 and the carry flag set, the carry
  flag is clear afterwards.
\<close>

theorem rlc_rrc_carry_counterexample:
  "c (F (rrc_A (rlc_A (cpu0\<lparr>F := (F cpu0)\<lparr>c := True\<rparr>\<rparr>)))) \<noteq>
   c (F (cpu0\<lparr>F := (F cpu0)\<lparr>c := True\<rparr>\<rparr>))"
  by code_simp

text \<open>
  Claim C8, amended: for every accumulator value in [0,255] and every carry
  flag, rotate-left-circular followed by rotate-right-circular restores the
  accumulator; the carry flag afterwards is bit 7 of the accumulator, the carry
  that the rotate-left produced, whatever it was before the two calls.
\<close>

theorem rlc_then_rrc:
  assumes "0 \<le> A s" "A s \<le> 255"
  shows "A (rrc_A (rlc_A s)) = A s \<and>
         (c (F (rrc_A (rlc_A s))) \<longleftrightarrow> js_and (A s) 0x80 \<noteq> 0)"
proof -
  from assms have "A s \<in> set [0..255]"
    by simp
  with rlc_rrc_bytes show ?thesis
    unfolding rrc_A_acc rrc_A_carry rlc_A_acc Let_def by blast
qed

theorem rlc_then_rrc_witness:
  "0 \<le> A (cpu0\<lparr>A := 0x85\<rparr>) \<and> A (cpu0\<lparr>A := 0x85\<rparr>) \<le> 255 \<and>
   A (rrc_A (rlc_A (cpu0\<lparr>A := 0x85\<rparr>))) = 0x85 \<and>
   c (F (rrc_A (rlc_A (cpu0\<lparr>A := 0x85\<rparr>))))"
  using rlc_then_rrc [of "cpu0\<lparr>A := 0x85\<rparr>"]
  by (simp add: js_and_def toInt32_def)

section \<open>Interrupt enabling\<close>



section \<open>The register-width invariant\<close>

text \<open>
  Claim C10: every handler keeps the 8-bit registers within [0,255] and the
  stack pointer and program counter within [0,65535]. The accumulator rotations
  shift left without discarding bit 8, and the 16-bit increment does not wrap:
  from the accumulator 0x80, \<open>rlc_A\<close> leaves 0x101 and \<open>rl_A\<close> leaves 0x100, and
  \<open>inc_r16\<close> takes the stack pointer from 0xFFFF to 0x10000.
\<close>

theorem handlers_leave_register_range:
  "registers_in_range (cpu0\<lparr>A := 0x80\<rparr>) \<and>
   A (rlc_A (cpu0\<lparr>A := 0x80\<rparr>)) = 0x101 \<and>
   \<not> registers_in_range (rlc_A (cpu0\<lparr>A := 0x80\<rparr>)) \<and>
   A (rl_A (cpu0\<lparr>A := 0x80\<rparr>)) = 0x100 \<and>
   \<not> registers_in_range (rl_A (cpu0\<lparr>A := 0x80\<rparr>)) \<and>
   registers_in_range (cpu0\<lparr>SP := 0xFFFF\<rparr>) \<and>
   \<not> registers_in_range (inc_r16 R16_SP (cpu0\<lparr>SP := 0xFFFF\<rparr>))"
  by code_simp

end
